theory Spec2Isabelle
  imports Main
begin

section \<open>Postcondition checkers of the deploy and retrieve commands\<close>

text \<open>
  A shallow embedding of the postcondition checkers of salesforcedx-vscode-core
  (\<^verbatim>\<open>CompositePostconditionChecker\<close>, \<^verbatim>\<open>EmptyPostChecker\<close>,
  \<^verbatim>\<open>OverwriteComponentPrompt\<close>, \<^verbatim>\<open>ConflictDetectionChecker\<close> and
  \<^verbatim>\<open>TimestampConflictChecker\<close>). Asynchronous functions are modelled by their result:
  the chain awaits every step, so one call is finished before the next one starts.
\<close>

subsection \<open>Responses, thrown values, collaborator calls\<close>

text \<open>
  \<^verbatim>\<open>ContinueResponse<T> | CancelResponse\<close>: the tag \<^verbatim>\<open>type\<close> is the constructor,
  \<^verbatim>\<open>data\<close> the payload of a continuation, \<^verbatim>\<open>msg\<close> the optional message of a
  cancellation.
\<close>

datatype 'a response = Continue 'a | Cancel "string option"

text \<open>
  A thrown value (the value a promise rejects with). JavaScript throws any value: one
  that has a \<^verbatim>\<open>toString()\<close>, kept as the text that call gives (an \<^verbatim>\<open>Error\<close> object,
  a string, a number), or \<^verbatim>\<open>null\<close> or \<^verbatim>\<open>undefined\<close>, on which reading \<^verbatim>\<open>toString\<close>
  throws a \<^verbatim>\<open>TypeError\<close>.
\<close>

datatype exn = Error string | Nullish

text \<open>What a call does: it returns a value, or it throws (the promise rejects).\<close>

datatype 'x outcome = Returned 'x | Threw exn

subsection \<open>CompositePostconditionChecker and EmptyPostChecker\<close>

text \<open>
  A checker of the chain is any object with a \<^verbatim>\<open>check\<close> method. It reads and changes
  the world \<open>'w\<close> (the user, the file system, the output channel), and it may throw.
\<close>

type_synonym ('a, 'w) checker = "'a response \<Rightarrow> 'w \<Rightarrow> 'a response outcome \<times> 'w"

text \<open>
  The \<^verbatim>\<open>for ... of\<close> loop of \<^verbatim>\<open>check\<close> over the postcheckers from position \<open>k\<close> on.
  The third component lists the calls made, in order: the position of the checker
  called and what the call did. A call that throws ends \<^verbatim>\<open>check\<close> with that exception.
\<close>

fun postcheckers_loop ::
  "('a, 'w) checker list \<Rightarrow> nat \<Rightarrow> 'a response \<Rightarrow> 'w \<Rightarrow>
     'a response outcome \<times> 'w \<times> (nat \<times> 'a response outcome) list" where
  "postcheckers_loop [] k inputs w = (Returned inputs, w, [])"
| "postcheckers_loop (postchecker # rest) k inputs w =
     (case postchecker inputs w of
        (Threw e, w') \<Rightarrow> (Threw e, w', [(k, Threw e)])
      | (Returned inputs', w') \<Rightarrow>
          (case inputs' of
             Cancel m \<Rightarrow> (Returned (Cancel None), w', [(k, Returned inputs')])
           | Continue d \<Rightarrow>
               (case postcheckers_loop rest (Suc k) inputs' w' of
                  (out, w'', calls) \<Rightarrow> (out, w'', (k, Returned inputs') # calls))))"

definition composite_check ::
  "('a, 'w) checker list \<Rightarrow> 'a response \<Rightarrow> 'w \<Rightarrow>
     'a response outcome \<times> 'w \<times> (nat \<times> 'a response outcome) list" where
  "composite_check postcheckers inputs w =
     (case inputs of
        Continue d \<Rightarrow> postcheckers_loop postcheckers 0 inputs w
      | Cancel m \<Rightarrow> (Returned inputs, w, []))"

definition empty_check :: "'a response \<Rightarrow> 'a response" where
  "empty_check inputs = inputs"

text \<open>The empty checker as a member of a chain.\<close>

definition empty_checker :: "('a, 'w) checker" where
  "empty_checker inputs w = (Returned (empty_check inputs), w)"

text \<open>
  The checkers of a list called one after the other by hand, each on the response of
  the one before: the response and the world after the last one when every one of them
  returned a continuation, \<open>None\<close> when one cancelled or threw. It says of the checkers
  themselves what the properties of the chain assume about them.
\<close>

fun prefix_continues ::
  "('a, 'w) checker list \<Rightarrow> 'a response \<Rightarrow> 'w \<Rightarrow> ('a response \<times> 'w) option" where
  "prefix_continues [] inputs w = Some (inputs, w)"
| "prefix_continues (c # cs) inputs w =
     (case c inputs w of
        (Returned (Continue d), w') \<Rightarrow> prefix_continues cs (Continue d) w'
      | (Returned (Cancel m), w') \<Rightarrow> None
      | (Threw e, w') \<Rightarrow> None)"

subsection \<open>Message table, numbers in text, sets of objects\<close>

text \<open>
  \<^verbatim>\<open>nls.localize(key, ...args)\<close> looks the key up in the message table and fills in
  the arguments. The table is not part of the sources, so it is a parameter \<open>nls\<close> of
  every function that reads it. An argument is a string or a number.
\<close>

datatype arg = Str string | Num int

type_synonym nls = "string \<Rightarrow> arg list \<Rightarrow> string"

text \<open>A number inside a template literal: its decimal digits, with a sign when negative.\<close>

definition digit_char :: "nat \<Rightarrow> char" where
  "digit_char d = ''0123456789'' ! d"

fun show_nat :: "nat \<Rightarrow> string" where
  "show_nat n = (if n < 10 then [digit_char n] else show_nat (n div 10) @ [digit_char (n mod 10)])"

definition show_int :: "int \<Rightarrow> string" where
  "show_int i = (if i < 0 then ''-'' @ show_nat (nat (- i)) else show_nat (nat i))"

definition newline :: string where
  "newline = [CHR 0x0A]"

text \<open>
  A \<^verbatim>\<open>LocalComponent\<close> object. The lists and the \<^verbatim>\<open>Set\<close> of the overwrite prompt hold
  references to such objects, and a \<^verbatim>\<open>Set\<close> compares them by identity: a reference is
  a number, and the store gives the fields of the object behind it.
\<close>

record LocalComponent =
  lc_fileName :: string
  lc_outputdir :: string
  lc_type :: string
  lc_suffix :: "string option"

type_synonym ref = nat

type_synonym store = "ref \<Rightarrow> LocalComponent"

text \<open>
  A JavaScript \<^verbatim>\<open>Set\<close>, as the list of its members in insertion order:
  \<^verbatim>\<open>add\<close>, \<^verbatim>\<open>new Set(array)\<close>; \<^verbatim>\<open>size\<close> is the length and \<^verbatim>\<open>has\<close> is membership.
\<close>

definition set_add :: "'a \<Rightarrow> 'a list \<Rightarrow> 'a list" where
  "set_add x s = (if x \<in> set s then s else s @ [x])"

definition new_Set :: "'a list \<Rightarrow> 'a list" where
  "new_Set xs = foldl (\<lambda>s x. set_add x s) [] xs"

text \<open>A string or an optional string in a condition: \<^verbatim>\<open>undefined\<close> and \<^verbatim>\<open>''\<close> are falsy.\<close>

definition truthy :: "string option \<Rightarrow> bool" where
  "truthy v = (case v of None \<Rightarrow> False | Some s \<Rightarrow> s \<noteq> [])"

subsection \<open>Collaborators\<close>

text \<open>
  \<^verbatim>\<open>DirectoryDiffResults\<close>: the set \<^verbatim>\<open>different\<close> in iteration order, and the two counts.
  Of a file of the set the checkers read \<^verbatim>\<open>localRelPath\<close> only.
\<close>

record conflict_file =
  localRelPath :: string

record DirectoryDiffResults =
  different :: "conflict_file list"
  scannedRemote :: int
  scannedLocal :: int

text \<open>Every call of a collaborator that has an effect, as the checkers make them.\<close>

datatype event =
    ShowErrorMessage string
  | SendException string string
  | ShowWarningModal string "string list"
  | ShowChannelOutput
  | ShowCommandWithTimestamp string
  | AppendLine string
  | ConsoleError exn
  | CheckForConflicts string string
  | LoadCache string string string bool
  | CreateDiffs
  | VisualizeDifferences string string bool "DirectoryDiffResults option"
  | Unlock

text \<open>
  An entry of \<^verbatim>\<open>MetadataDictionary\<close>, and a path strategy: \<^verbatim>\<open>getPathToSource\<close> from the
  output directory, the file name and the extension.
\<close>

type_synonym pathStrategy = "string \<Rightarrow> string \<Rightarrow> string \<Rightarrow> string"

record metadataInfo =
  info_suffix :: "string option"
  info_extensions :: "string list option"
  info_pathStrategy :: pathStrategy

text \<open>
  What the checkers read from outside: the setting, the workspace, the message table,
  the metadata dictionary, the file system, the modal dialog of the user interface (it
  answers with one of the labels or with nothing, and the user \<open>'u\<close> may answer
  differently the next time), and the comparison collaborators, which may throw.
\<close>

record ('u, 'snap) env =
  conflictDetectionEnabled :: bool
  username :: "string option"
  localize :: nls
  rootWorkspacePath :: string
  getInfo :: "string \<Rightarrow> metadataInfo option"
  defaultStrategy :: pathStrategy
  joinPath :: "string \<Rightarrow> string \<Rightarrow> string"
  existsSync :: "string \<Rightarrow> bool"
  displayPath :: "string \<Rightarrow> string"
  showWarningModal :: "'u \<Rightarrow> string \<Rightarrow> string list \<Rightarrow> string option \<times> 'u"
  checkForConflicts :: "string \<Rightarrow> string \<Rightarrow> exn + DirectoryDiffResults"
  loadCache :: "string \<Rightarrow> string \<Rightarrow> string \<Rightarrow> bool \<Rightarrow> exn + 'snap"
  createDiffs :: "'snap \<Rightarrow> exn + DirectoryDiffResults"

subsection \<open>OverwriteComponentPrompt\<close>

text \<open>
  \<^verbatim>\<open>getFileExtensions\<close>: the descriptor extension from the suffix of the component or of
  its dictionary entry, then the extensions of the entry. Without a suffix it reports
  the error and goes on with the text \<^verbatim>\<open>undefined\<close> in the extension.
\<close>

definition getFileExtensions ::
  "('u, 'snap) env \<Rightarrow> LocalComponent \<Rightarrow> string list \<times> event list" where
  "getFileExtensions env component =
     (let info = getInfo env (lc_type component);
          (metadataSuffix, evs) =
            (if truthy (lc_suffix component) then (lc_suffix component, [])
             else if (case info of None \<Rightarrow> False | Some i \<Rightarrow> truthy (info_suffix i))
               then (case info of None \<Rightarrow> (None, []) | Some i \<Rightarrow> (info_suffix i, []))
             else (None,
               [ShowErrorMessage (localize env ''error_overwrite_prompt'' []),
                SendException ''OverwriteComponentPromptException''
                  (''Missing suffix for '' @ lc_type component)]));
          extensions =
            [''.'' @ (case metadataSuffix of None \<Rightarrow> ''undefined'' | Some s \<Rightarrow> s) @ ''-meta.xml''];
          extensions =
            (case info of
               None \<Rightarrow> extensions
             | Some i \<Rightarrow>
                 (case info_extensions i of None \<Rightarrow> extensions | Some others \<Rightarrow> extensions @ others))
      in (extensions, evs))"

definition componentExists ::
  "('u, 'snap) env \<Rightarrow> LocalComponent \<Rightarrow> bool \<times> event list" where
  "componentExists env component =
     (let info = getInfo env (lc_type component);
          strategy = (case info of None \<Rightarrow> defaultStrategy env | Some i \<Rightarrow> info_pathStrategy i);
          (extensions, evs) = getFileExtensions env component
      in (list_ex
            (\<lambda>extension.
               existsSync env
                 (joinPath env (rootWorkspacePath env)
                    (strategy (lc_outputdir component) (lc_fileName component) extension)))
            extensions,
          evs))"

text \<open>\<^verbatim>\<open>componentsToCheck.filter(component => this.componentExists(component))\<close>.\<close>

fun filter_existing ::
  "('u, 'snap) env \<Rightarrow> store \<Rightarrow> ref list \<Rightarrow> ref list \<times> event list" where
  "filter_existing env h [] = ([], [])"
| "filter_existing env h (c # cs) =
     (case componentExists env (h c) of
        (found, evs) \<Rightarrow>
          (case filter_existing env h cs of
             (rest, evs') \<Rightarrow> ((if found then c # rest else rest), evs @ evs')))"

definition buildDialogOptions :: "nls \<Rightarrow> ref list \<Rightarrow> ref list \<Rightarrow> nat \<Rightarrow> string list" where
  "buildDialogOptions nls foundComponents skipped currentIndex =
     (let choices = [nls ''warning_prompt_overwrite'' []];
          numOfExistingFiles = int (length foundComponents);
          choices =
            (if int (length skipped) > 0 \<or> int (length skipped) \<noteq> numOfExistingFiles - 1
             then choices @ [nls ''warning_prompt_skip'' []] else choices)
      in if int currentIndex < numOfExistingFiles - 1
         then (let othersCount = numOfExistingFiles - int currentIndex
               in choices @
                  [nls ''warning_prompt_overwrite_all'' [] @ '' ('' @ show_int othersCount @ '')'',
                   nls ''warning_prompt_skip_all'' [] @ '' ('' @ show_int othersCount @ '')''])
         else choices)"

text \<open>
  The loop of \<^verbatim>\<open>buildDialogMessage\<close> from \<open>j\<close> on: one line for each following
  component, and at the eleventh the count of the components not shown, then \<^verbatim>\<open>break\<close>.
\<close>

function body_loop :: "nls \<Rightarrow> store \<Rightarrow> ref list \<Rightarrow> nat \<Rightarrow> nat \<Rightarrow> string \<Rightarrow> string" where
  "body_loop nls h foundComponents currentIndex j body =
     (if j < length foundComponents then
        (if j = currentIndex + 11 then
           body @ nls ''warning_prompt_other_not_shown''
                    [Num (int (length foundComponents) - int currentIndex - 11)]
         else
           body_loop nls h foundComponents currentIndex (Suc j)
             (body @ lc_type (h (foundComponents ! j)) @ '':'' @
                lc_fileName (h (foundComponents ! j)) @ newline))
      else body)"
  by pat_completeness auto
termination
  by (relation "measure (\<lambda>(nls, h, foundComponents, currentIndex, j, body). length foundComponents - j)")
     auto

text \<open>
  \<^verbatim>\<open>buildDialogMessage\<close>. Past the end of the list \<^verbatim>\<open>current\<close> is \<^verbatim>\<open>undefined\<close> and
  reading \<^verbatim>\<open>current.type\<close> throws a \<^verbatim>\<open>TypeError\<close>.
\<close>

definition buildDialogMessage :: "nls \<Rightarrow> store \<Rightarrow> ref list \<Rightarrow> nat \<Rightarrow> exn + string" where
  "buildDialogMessage nls h foundComponents currentIndex =
     (let existingLength = length foundComponents;
          body = body_loop nls h foundComponents currentIndex (currentIndex + 1) [];
          otherFilesCount = int existingLength - int currentIndex - 1
      in if existingLength \<le> currentIndex
         then Inl (Error ''TypeError: Cannot read property 'type' of undefined'')
         else
           (let current = h (foundComponents ! currentIndex)
            in Inr (nls ''warning_prompt_overwrite_message''
                 [Str (lc_type current), Str (lc_fileName current),
                  Str (if otherFilesCount > 0
                       then nls ''warning_prompt_other_existing'' [Num otherFilesCount] else []),
                  Str body])))"

text \<open>
  The loop of \<^verbatim>\<open>promptOverwrite\<close> from index \<open>i\<close> on, with the skip set so far. The
  \<^verbatim>\<open>switch\<close> compares the answer with the labels in the order of its cases; no answer
  (the dialog was dismissed) matches none. The result \<open>None\<close> is \<^verbatim>\<open>undefined\<close>.
  The last component lists the dialogs shown.
\<close>

function promptOverwrite_loop ::
  "nls \<Rightarrow> ('u \<Rightarrow> string \<Rightarrow> string list \<Rightarrow> string option \<times> 'u) \<Rightarrow> store \<Rightarrow> ref list \<Rightarrow>
     nat \<Rightarrow> ref list \<Rightarrow> 'u \<Rightarrow> ref list option outcome \<times> 'u \<times> event list" where
  "promptOverwrite_loop nls modal h foundComponents i skipped u =
     (if i < length foundComponents then
        (let options = buildDialogOptions nls foundComponents skipped i
         in case buildDialogMessage nls h foundComponents i of
              Inl e \<Rightarrow> (Threw e, u, [])
            | Inr message \<Rightarrow>
                (case modal u message options of
                   (choice, u') \<Rightarrow>
                     (let othersCount = int (length foundComponents) - int i;
                          shown = ShowWarningModal message options
                      in if choice = Some (nls ''warning_prompt_overwrite'' []) then
                           (case promptOverwrite_loop nls modal h foundComponents (Suc i) skipped u' of
                              (r, u'', evs) \<Rightarrow> (r, u'', shown # evs))
                         else if choice = Some (nls ''warning_prompt_skip'' []) then
                           (case promptOverwrite_loop nls modal h foundComponents (Suc i)
                                   (set_add (foundComponents ! i) skipped) u' of
                              (r, u'', evs) \<Rightarrow> (r, u'', shown # evs))
                         else if choice = Some (nls ''warning_prompt_overwrite_all'' [] @
                                                  '' ('' @ show_int othersCount @ '')'') then
                           (Returned (Some skipped), u', [shown])
                         else if choice = Some (nls ''warning_prompt_skip_all'' [] @
                                                  '' ('' @ show_int othersCount @ '')'') then
                           (Returned (Some (new_Set (drop i foundComponents))), u', [shown])
                         else (Returned None, u', [shown]))))
      else (Returned (Some skipped), u, []))"
  by pat_completeness auto
termination
  by (relation "measure (\<lambda>(nls, modal, h, foundComponents, i, skipped, u). length foundComponents - i)")
     auto

definition promptOverwrite ::
  "nls \<Rightarrow> ('u \<Rightarrow> string \<Rightarrow> string list \<Rightarrow> string option \<times> 'u) \<Rightarrow> store \<Rightarrow> ref list \<Rightarrow>
     'u \<Rightarrow> ref list option outcome \<times> 'u \<times> event list" where
  "promptOverwrite nls modal h foundComponents u =
     promptOverwrite_loop nls modal h foundComponents 0 [] u"

text \<open>
  The payload of the overwrite prompt: one component, or an array of components
  (\<^verbatim>\<open>data instanceof Array ? data : [data]\<close> makes a list of either).
\<close>

datatype oneOrMany = One ref | Many "ref list"

text \<open>
  \<^verbatim>\<open>OverwriteComponentPrompt.check\<close>. The source stores the narrowed array into the
  \<^verbatim>\<open>data\<close> of the response it was given and returns that response; the model returns
  the response with the new payload.
\<close>

definition componentsToCheck :: "oneOrMany \<Rightarrow> ref list" where
  "componentsToCheck d = (case d of Many cs \<Rightarrow> cs | One c \<Rightarrow> [c])"

definition overwrite_check ::
  "('u, 'snap) env \<Rightarrow> store \<Rightarrow> oneOrMany response \<Rightarrow> 'u \<Rightarrow>
     oneOrMany response outcome \<times> 'u \<times> event list" where
  "overwrite_check env h inputs u =
     (case inputs of
        Continue d \<Rightarrow>
          (let componentsToCheck = componentsToCheck d
           in case filter_existing env h componentsToCheck of
                (foundComponents, evs) \<Rightarrow>
                  if length foundComponents > 0 then
                    (case promptOverwrite (localize env) (showWarningModal env) h foundComponents u of
                       (Threw e, u', evs') \<Rightarrow> (Threw e, u', evs @ evs')
                     | (Returned toSkip, u', evs') \<Rightarrow>
                         (case toSkip of
                            None \<Rightarrow> (Returned (Cancel None), u', evs @ evs')
                          | Some skip \<Rightarrow>
                              if length skip = length componentsToCheck
                              then (Returned (Cancel None), u', evs @ evs')
                              else
                                (case d of
                                   Many cs \<Rightarrow>
                                     (Returned (Continue (Many
                                        (filter (\<lambda>selection. selection \<notin> set skip) componentsToCheck))),
                                      u', evs @ evs')
                                 | One c \<Rightarrow> (Returned inputs, u', evs @ evs'))))
                  else (Returned inputs, u, evs))
      | Cancel m \<Rightarrow> (Returned (Cancel None), u, []))"

subsection \<open>ConflictDetectionChecker\<close>

record ConflictDetectionMessages =
  warningMessageKey :: string
  commandHint :: "string \<Rightarrow> string"

text \<open>\<^verbatim>\<open>results.different.forEach\<close>: one line of the output channel for each file.\<close>

definition conflict_lines :: "('u, 'snap) env \<Rightarrow> DirectoryDiffResults \<Rightarrow> event list" where
  "conflict_lines env results =
     map (\<lambda>file. AppendLine (displayPath env (localRelPath file))) (different results)"

definition conflict_handleConflicts ::
  "('u, 'snap) env \<Rightarrow> ConflictDetectionMessages \<Rightarrow> string \<Rightarrow> string \<Rightarrow>
     DirectoryDiffResults \<Rightarrow> 'u \<Rightarrow> string response outcome \<times> 'u \<times> event list" where
  "conflict_handleConflicts env messages manifest usernameOrAlias results u =
     (let size = int (length (different results));
          conflictTitle =
            localize env ''conflict_detect_view_root'' [Str usernameOrAlias, Num size]
      in if size = 0 then
           (Returned (Continue manifest), u,
            [VisualizeDifferences conflictTitle usernameOrAlias False None])
         else
           (let evs =
                  AppendLine (localize env ''conflict_detect_conflict_header''
                    [Num size, Num (scannedRemote results), Num (scannedLocal results)]) #
                  conflict_lines env results @ [ShowChannelOutput];
                warning = localize env (warningMessageKey messages) [];
                options =
                  [localize env ''conflict_detect_override'' [],
                   localize env ''conflict_detect_show_conflicts'' []]
            in case showWarningModal env u warning options of
                 (choice, u') \<Rightarrow>
                   if choice = Some (localize env ''conflict_detect_override'' []) then
                     (Returned (Continue manifest), u',
                      evs @ [ShowWarningModal warning options,
                             VisualizeDifferences conflictTitle usernameOrAlias False None])
                   else
                     (let doReveal =
                            (choice = Some (localize env ''conflict_detect_show_conflicts'' []))
                      in (Returned (Cancel None), u',
                          evs @ [ShowWarningModal warning options,
                                 AppendLine (localize env ''conflict_detect_command_hint''
                                   [Str (commandHint messages manifest)]),
                                 ShowChannelOutput,
                                 VisualizeDifferences conflictTitle usernameOrAlias doReveal
                                   (Some results)]))))"

definition conflict_check ::
  "('u, 'snap) env \<Rightarrow> ConflictDetectionMessages \<Rightarrow> string response \<Rightarrow> 'u \<Rightarrow>
     string response outcome \<times> 'u \<times> event list" where
  "conflict_check env messages inputs u =
     (if \<not> conflictDetectionEnabled env then (Returned inputs, u, [])
      else
        (case inputs of
           Continue manifest \<Rightarrow>
             (case username env of
                None \<Rightarrow>
                  (Returned (Cancel (Some
                     (localize env ''conflict_detect_no_default_username'' []))), u, [])
              | Some name \<Rightarrow>
                  if name = [] then
                    (Returned (Cancel (Some
                       (localize env ''conflict_detect_no_default_username'' []))), u, [])
                  else
                    (case checkForConflicts env name manifest of
                       Inl e \<Rightarrow> (Threw e, u, [CheckForConflicts name manifest])
                     | Inr results \<Rightarrow>
                         (case conflict_handleConflicts env messages manifest name results u of
                            (out, u', evs) \<Rightarrow> (out, u', CheckForConflicts name manifest # evs))))
         | Cancel m \<Rightarrow> (Returned (Cancel None), u, [])))"

subsection \<open>TimestampConflictChecker\<close>

definition timestamp_handleConflicts ::
  "('u, 'snap) env \<Rightarrow> ConflictDetectionMessages \<Rightarrow> string \<Rightarrow> string \<Rightarrow>
     DirectoryDiffResults \<Rightarrow> 'u \<Rightarrow> string response outcome \<times> 'u \<times> event list" where
  "timestamp_handleConflicts env messages componentPath usernameOrAlias results u =
     (let size = int (length (different results));
          conflictTitle =
            localize env ''conflict_detect_view_root'' [Str usernameOrAlias, Num size]
      in if size = 0 then
           (Returned (Continue componentPath), u,
            [VisualizeDifferences conflictTitle usernameOrAlias False None])
         else
           (let evs =
                  AppendLine (localize env ''conflict_detect_conflict_header_timestamp''
                    [Num size]) #
                  conflict_lines env results;
                warning = localize env (warningMessageKey messages) [];
                options =
                  [localize env ''conflict_detect_show_conflicts'' [],
                   localize env ''conflict_detect_override'' []]
            in case showWarningModal env u warning options of
                 (choice, u') \<Rightarrow>
                   if choice = Some (localize env ''conflict_detect_override'' []) then
                     (Returned (Continue componentPath), u',
                      evs @ [ShowWarningModal warning options,
                             VisualizeDifferences conflictTitle usernameOrAlias False None])
                   else
                     (let doReveal =
                            (choice = Some (localize env ''conflict_detect_show_conflicts'' []))
                      in (Returned (Cancel None), u',
                          evs @ [ShowWarningModal warning options,
                                 AppendLine (localize env ''conflict_detect_command_hint''
                                   [Str (commandHint messages componentPath)]),
                                 VisualizeDifferences conflictTitle usernameOrAlias doReveal
                                   (Some results),
                                 Unlock]))))"

text \<open>
  The \<^verbatim>\<open>catch\<close> block of \<^verbatim>\<open>TimestampConflictChecker.check\<close>. It logs the error to the
  console, then reads \<^verbatim>\<open>error.toString()\<close> for the message: on \<^verbatim>\<open>null\<close> or
  \<^verbatim>\<open>undefined\<close> that read throws, and the block ends there with the \<^verbatim>\<open>TypeError\<close>
  (the first component), before the lock is released. Otherwise it writes the message
  to the channel and to telemetry, releases the deploy lock and falls through to the
  \<^verbatim>\<open>return\<close> at the end of \<^verbatim>\<open>check\<close>.
\<close>

definition timestamp_catch :: "('u, 'snap) env \<Rightarrow> exn \<Rightarrow> exn option \<times> event list" where
  "timestamp_catch env error =
     (case error of
        Nullish \<Rightarrow>
          (Some (Error ''TypeError: Cannot read property 'toString' of undefined''),
           [ConsoleError error])
      | Error text \<Rightarrow>
          (let errorMsg = localize env ''conflict_detect_error'' [Str text]
           in (None,
               [ConsoleError error, AppendLine errorMsg,
                SendException ''ConflictDetectionException'' errorMsg, Unlock])))"

text \<open>What \<^verbatim>\<open>check\<close> does once the \<^verbatim>\<open>try\<close> block has thrown, after the calls \<open>before\<close>.\<close>

definition timestamp_failed ::
  "('u, 'snap) env \<Rightarrow> exn \<Rightarrow> 'u \<Rightarrow> event list \<Rightarrow> string response outcome \<times> 'u \<times> event list" where
  "timestamp_failed env error u before =
     (case timestamp_catch env error of
        (Some raised, evs) \<Rightarrow> (Threw raised, u, before @ evs)
      | (None, evs) \<Rightarrow> (Returned (Cancel None), u, before @ evs))"

definition timestamp_check ::
  "('u, 'snap) env \<Rightarrow> bool \<Rightarrow> ConflictDetectionMessages \<Rightarrow> string response \<Rightarrow> 'u \<Rightarrow>
     string response outcome \<times> 'u \<times> event list" where
  "timestamp_check env isManifest messages inputs u =
     (if \<not> conflictDetectionEnabled env then (Returned inputs, u, [])
      else
        (case inputs of
           Continue componentPath \<Rightarrow>
             (let started =
                    [ShowChannelOutput,
                     ShowCommandWithTimestamp
                       (localize env ''channel_starting_message'' [] @
                        localize env ''conflict_detect_execution_name'' [] @ newline)]
              in case username env of
                   None \<Rightarrow>
                     (Returned (Cancel (Some
                        (localize env ''conflict_detect_no_default_username'' []))), u, started)
                 | Some name \<Rightarrow>
                     if name = [] then
                       (Returned (Cancel (Some
                          (localize env ''conflict_detect_no_default_username'' []))), u, started)
                     else
                       (let loading =
                              LoadCache name componentPath (rootWorkspacePath env) isManifest
                        in case loadCache env name componentPath (rootWorkspacePath env)
                                  isManifest of
                             Inl error \<Rightarrow> timestamp_failed env error u (started @ [loading])
                           | Inr result \<Rightarrow>
                               (case createDiffs env result of
                                  Inl error \<Rightarrow>
                                    timestamp_failed env error u
                                      (started @ [loading, CreateDiffs])
                                | Inr diffs \<Rightarrow>
                                    (case timestamp_handleConflicts env messages componentPath
                                            name diffs u of
                                       (out, u', evs) \<Rightarrow>
                                         (out, u',
                                          started @
                                          [loading, CreateDiffs,
                                           ShowCommandWithTimestamp
                                             (localize env ''channel_end'' [] @ '' '' @
                                              localize env ''conflict_detect_execution_name'' [] @
                                              newline)] @ evs)))))
         | Cancel m \<Rightarrow> (Returned (Cancel None), u, [])))"

subsection \<open>A workspace, a message table and a user for the examples\<close>

text \<open>
  Modelled from the spec: the message table of the extension is not under the sources.
  The labels of the overwrite dialog are the ones the specification names (Overwrite,
  Skip, Overwrite remaining, Skip remaining, +K more); every other key stands for its
  own text, followed by its arguments.
\<close>

definition render_arg :: "arg \<Rightarrow> string" where
  "render_arg a = (case a of Str s \<Rightarrow> s | Num n \<Rightarrow> show_int n)"

definition sample_nls :: nls where
  "sample_nls key args =
     (if key = ''warning_prompt_overwrite'' then ''Overwrite''
      else if key = ''warning_prompt_skip'' then ''Skip''
      else if key = ''warning_prompt_overwrite_all'' then ''Overwrite remaining''
      else if key = ''warning_prompt_skip_all'' then ''Skip remaining''
      else if key = ''warning_prompt_other_not_shown''
        then ''+'' @ concat (map render_arg args) @ '' more''
      else key @ concat (map (\<lambda>a. '' '' @ render_arg a) args))"

text \<open>A user who gives the answers of a list, one for each dialog, and then dismisses.\<close>

fun scripted :: "string option list \<Rightarrow> string \<Rightarrow> string list \<Rightarrow> string option \<times> string option list" where
  "scripted [] message options = (None, [])"
| "scripted (answer # answers) message options = (answer, answers)"

text \<open>Apex classes \<^verbatim>\<open>c0\<close>, \<^verbatim>\<open>c1\<close>, ...: the object behind reference \<open>r\<close> is class \<open>r\<close>.\<close>

definition sample_store :: store where
  "sample_store r =
     \<lparr>lc_fileName = ''c'' @ show_nat r, lc_outputdir = ''classes'', lc_type = ''ApexClass'',
      lc_suffix = Some ''cls''\<rparr>"

text \<open>
  A workspace where exactly the descriptor files of the classes in \<open>present\<close> exist, no
  type is registered in the dictionary, and the comparison collaborators are given.
\<close>

definition sample_env ::
  "bool \<Rightarrow> string option \<Rightarrow> ref list \<Rightarrow> (string \<Rightarrow> string \<Rightarrow> string \<Rightarrow> bool \<Rightarrow> exn + nat) \<Rightarrow>
     (nat \<Rightarrow> exn + DirectoryDiffResults) \<Rightarrow> (string option list, nat) env" where
  "sample_env enabled user present load diffs =
     \<lparr>conflictDetectionEnabled = enabled,
      username = user,
      localize = sample_nls,
      rootWorkspacePath = ''/ws'',
      getInfo = (\<lambda>t. None),
      defaultStrategy = (\<lambda>outputdir fileName extension. outputdir @ ''/'' @ fileName @ extension),
      joinPath = (\<lambda>a b. a @ ''/'' @ b),
      existsSync =
        (\<lambda>path. path \<in> set (map (\<lambda>r. ''/ws/classes/c'' @ show_nat r @ ''.cls-meta.xml'') present)),
      displayPath = (\<lambda>path. path),
      showWarningModal = scripted,
      checkForConflicts =
        (\<lambda>name manifest. Inr \<lparr>different = [], scannedRemote = 0, scannedLocal = 0\<rparr>),
      loadCache = load,
      createDiffs = diffs\<rparr>"

definition sample_messages :: ConflictDetectionMessages where
  "sample_messages =
     \<lparr>warningMessageKey = ''conflict_detect_conflicts_during_deploy'',
      commandHint = (\<lambda>input. ''sfdx force:source:deploy -p '' @ input)\<rparr>"

text \<open>Checkers for the examples of a chain: one that passes its input on, one that cancels
  with a message; each counts its call in the world.\<close>

definition passing_checker :: "(string, nat) checker" where
  "passing_checker inputs w = (Returned inputs, Suc w)"

definition cancelling_checker :: "(string, nat) checker" where
  "cancelling_checker inputs w = (Returned (Cancel (Some ''no default username'')), Suc w)"

text \<open>
  A snapshot loader that fails with an \<^verbatim>\<open>Error\<close>, one that rejects with
  \<^verbatim>\<open>undefined\<close>, one that answers, and a diff builder that fails.
\<close>

definition failing_load :: "string \<Rightarrow> string \<Rightarrow> string \<Rightarrow> bool \<Rightarrow> exn + nat" where
  "failing_load name path root isManifest = Inl (Error ''Error: socket hang up'')"

definition nullish_load :: "string \<Rightarrow> string \<Rightarrow> string \<Rightarrow> bool \<Rightarrow> exn + nat" where
  "nullish_load name path root isManifest = Inl Nullish"

definition good_load :: "string \<Rightarrow> string \<Rightarrow> string \<Rightarrow> bool \<Rightarrow> exn + nat" where
  "good_load name path root isManifest = Inr 7"

definition failing_diffs :: "nat \<Rightarrow> exn + DirectoryDiffResults" where
  "failing_diffs snapshot = Inl (Error ''Error: no cache'')"

section \<open>Properties\<close>

subsection \<open>The chain\<close>

text \<open>
  The loop from position \<open>k\<close>: when some call of the list returned a cancellation, at
  position \<open>i\<close>, the loop returned a cancellation without a message and the calls made
  are those of the positions \<open>k\<close> to \<open>i\<close>, once each and in order.
\<close>

lemma postcheckers_loop_cancel:
  "postcheckers_loop cs k inputs w = (out, w', calls) \<Longrightarrow>
   (i, Returned (Cancel m)) \<in> set calls \<Longrightarrow>
   out = Returned (Cancel None) \<and> map fst calls = [k..<Suc i]"
proof (induction cs arbitrary: k inputs w out w' calls)
  case Nil
  then show ?case by simp
next
  case (Cons c cs)
  obtain r w1 where c: "c inputs w = (r, w1)" by (cases "c inputs w")
  show ?case
  proof (cases r)
    case (Threw e)
    with c Cons.prems show ?thesis by auto
  next
    case (Returned inputs')
    show ?thesis
    proof (cases inputs')
      case (Cancel m')
      with c Returned Cons.prems show ?thesis by auto
    next
      case (Continue d)
      obtain out2 w2 calls2 where rest: "postcheckers_loop cs (Suc k) inputs' w1 = (out2, w2, calls2)"
        by (cases "postcheckers_loop cs (Suc k) inputs' w1")
      with c Returned Continue Cons.prems
      have eq: "out = out2" "calls = (k, Returned inputs') # calls2" by auto
      with Cons.prems(2) Continue have mem: "(i, Returned (Cancel m)) \<in> set calls2" by auto
      from Cons.IH [OF rest mem] have ih: "out2 = Returned (Cancel None)" "map fst calls2 = [Suc k..<Suc i]"
        by auto
      from mem have "i \<in> set (map fst calls2)" by force
      with ih(2) have "Suc k \<le> i" by simp
      then have "[k..<Suc i] = k # [Suc k..<Suc i]" by (simp add: upt_conv_Cons)
      with eq ih show ?thesis by simp
    qed
  qed
qed

lemma composite_calls_end_at_cancel:
  "composite_check cs (Continue d) w = (out, w', calls) \<Longrightarrow>
   (i, Returned (Cancel m')) \<in> set calls \<Longrightarrow>
   out = Returned (Cancel None) \<and> map fst calls = [0..<Suc i]"
  using postcheckers_loop_cancel [of cs 0 "Continue d" w out w' calls i m']
  by (simp add: composite_check_def)

text \<open>
  The loop over a list \<open>pre @ c # post\<close>, when the checkers of \<open>pre\<close> continue one after
  the other and \<open>c\<close> then cancels: the loop ends with a cancellation, in the world as
  \<open>c\<close> left it, after the calls of \<open>pre\<close> and of \<open>c\<close>, the last call being the one of \<open>c\<close>.
\<close>

lemma postcheckers_loop_prefix:
  "prefix_continues pre inputs w = Some (inputs', w1) \<Longrightarrow>
   c inputs' w1 = (Returned (Cancel m'), w2) \<Longrightarrow>
   \<exists>calls. postcheckers_loop (pre @ c # post) k inputs w = (Returned (Cancel None), w2, calls) \<and>
     map fst calls = [k..<Suc (k + length pre)] \<and>
     last calls = (k + length pre, Returned (Cancel m'))"
proof (induction pre arbitrary: k inputs w)
  case Nil
  then show ?case by simp
next
  case (Cons p ps)
  from Cons.prems(1) obtain d w0 where
    p: "p inputs w = (Returned (Continue d), w0)" and
    rest: "prefix_continues ps (Continue d) w0 = Some (inputs', w1)"
    by (auto split: prod.splits outcome.splits response.splits)
  from Cons.IH [OF rest Cons.prems(2), of "Suc k"] obtain calls where
    loop: "postcheckers_loop (ps @ c # post) (Suc k) (Continue d) w0 =
             (Returned (Cancel None), w2, calls)" and
    idx: "map fst calls = [Suc k..<Suc (Suc k + length ps)]" and
    lst: "last calls = (Suc k + length ps, Returned (Cancel m'))"
    by blast
  from idx have ne: "calls \<noteq> []" by auto
  have bound: "Suc (k + length (p # ps)) = Suc (Suc k + length ps)" by simp
  have "k < Suc (Suc k + length ps)" by simp
  then have "[k..<Suc (Suc k + length ps)] = k # [Suc k..<Suc (Suc k + length ps)]"
    by (rule upt_conv_Cons)
  with bound have upt: "[k..<Suc (k + length (p # ps))] = k # [Suc k..<Suc (Suc k + length ps)]"
    by (simp only:)
  have "postcheckers_loop ((p # ps) @ c # post) k inputs w =
          (Returned (Cancel None), w2, (k, Returned (Continue d)) # calls)"
    using p loop by simp
  moreover have "map fst ((k, Returned (Continue d) :: 'a response outcome) # calls) =
          [k..<Suc (k + length (p # ps))]"
    using idx upt by simp
  moreover have "last ((k, Returned (Continue d)) # calls) =
          (k + length (p # ps), Returned (Cancel m'))"
    using ne lst by simp
  ultimately show ?case by blast
qed

text \<open>
  Claim C1. Take any chain \<open>pre @ c # post\<close> and an input that continues. When the
  checkers of \<open>pre\<close>, called in order, all continue, and \<open>c\<close>, the checker at position
  \<open>i = length pre\<close>, called on what they hand over, returns a cancellation, then the
  composite returns a cancellation, the world is the one \<open>c\<close> left (whatever the
  checkers of \<open>post\<close> would do to it), and the calls made are those of the positions
  \<open>0\<close> to \<open>i\<close>, the last being the call of \<open>c\<close>: no checker of \<open>post\<close> is
  called. An input that is a cancellation already is returned as it is, in an unchanged
  world, and no checker is called.
\<close>

theorem composite_short_circuit:
  "composite_check cs (Cancel m) w = (Returned (Cancel m), w, []) \<and>
   (prefix_continues pre (Continue d) w = Some (inputs', w1) \<and>
    c inputs' w1 = (Returned (Cancel m'), w2) \<longrightarrow>
      fst (composite_check (pre @ c # post) (Continue d) w) = Returned (Cancel None) \<and>
      fst (snd (composite_check (pre @ c # post) (Continue d) w)) = w2 \<and>
      map fst (snd (snd (composite_check (pre @ c # post) (Continue d) w))) =
        [0..<Suc (length pre)] \<and>
      last (snd (snd (composite_check (pre @ c # post) (Continue d) w))) =
        (length pre, Returned (Cancel m')))"
proof (intro conjI impI)
  show "composite_check cs (Cancel m) w = (Returned (Cancel m), w, [])"
    by (simp add: composite_check_def)
next
  assume a: "prefix_continues pre (Continue d) w = Some (inputs', w1) \<and>
    c inputs' w1 = (Returned (Cancel m'), w2)"
  then obtain calls where
    loop: "postcheckers_loop (pre @ c # post) 0 (Continue d) w = (Returned (Cancel None), w2, calls)"
    and idx: "map fst calls = [0..<Suc (0 + length pre)]"
    and lst: "last calls = (0 + length pre, Returned (Cancel m'))"
    using postcheckers_loop_prefix [of pre "Continue d" w inputs' w1 c m' w2 post 0] by blast
  then have run: "composite_check (pre @ c # post) (Continue d) w = (Returned (Cancel None), w2, calls)"
    by (simp add: composite_check_def)
  show "fst (composite_check (pre @ c # post) (Continue d) w) = Returned (Cancel None)"
    by (simp add: run)
  show "fst (snd (composite_check (pre @ c # post) (Continue d) w)) = w2"
    by (simp add: run)
  show "map fst (snd (snd (composite_check (pre @ c # post) (Continue d) w))) = [0..<Suc (length pre)]"
    using idx by (simp add: run)
  show "last (snd (snd (composite_check (pre @ c # post) (Continue d) w))) =
        (length pre, Returned (Cancel m'))"
    using lst by (simp add: run)
qed

text \<open>
  A chain of three where the second cancels. Each checker of the example adds one to
  the world when it is called: the world ends at 2, and the third was never called.
\<close>

theorem composite_short_circuit_witness:
  "composite_check [passing_checker, cancelling_checker, passing_checker] (Cancel (Some ''stop'')) 0
     = (Returned (Cancel (Some ''stop'')), 0, []) \<and>
   prefix_continues [passing_checker] (Continue ''manifest'') 0 = Some (Continue ''manifest'', 1) \<and>
   cancelling_checker (Continue ''manifest'') 1
     = (Returned (Cancel (Some ''no default username'')), 2) \<and>
   composite_check [passing_checker, cancelling_checker, passing_checker] (Continue ''manifest'') 0
     = (Returned (Cancel None), 2,
        [(0, Returned (Continue ''manifest'')), (1, Returned (Cancel (Some ''no default username'')))])"
proof -
  have h1: "prefix_continues [passing_checker] (Continue ''manifest'') 0 = Some (Continue ''manifest'', 1)"
    by (simp add: passing_checker_def)
  have h2: "cancelling_checker (Continue ''manifest'') 1
     = (Returned (Cancel (Some ''no default username'')), 2)"
    by (simp add: cancelling_checker_def)
  have ev: "composite_check ([passing_checker] @ cancelling_checker # [passing_checker])
       (Continue ''manifest'') 0
     = (Returned (Cancel None), 2,
        [(0, Returned (Continue ''manifest'')), (1, Returned (Cancel (Some ''no default username'')))])"
    by (simp add: composite_check_def passing_checker_def cancelling_checker_def)
  from composite_short_circuit [of "[passing_checker, cancelling_checker, passing_checker]"
      "Some ''stop''" 0 "[passing_checker]" "''manifest''" "Continue ''manifest''" 1
      cancelling_checker "Some ''no default username''" 2 "[passing_checker]"]
  show ?thesis using h1 h2 ev by simp
qed



subsection \<open>The empty checker and the conflict checkers\<close>

text \<open>
  Claim C9. The empty checker returns its input unchanged, whether it continues (with
  any payload) or cancels (with or without a message).
\<close>

theorem empty_check_identity: "empty_check x = x"
  by (simp add: empty_check_def)

text \<open>
  Claim C7. With conflict detection disabled in the settings, the manifest checker and
  the timestamp checker both return their input as it is, whatever it is, the user
  interface is left as it was, and no collaborator is called.
\<close>

theorem disabled_passes_through:
  "\<not> conflictDetectionEnabled env \<Longrightarrow>
   conflict_check env messages inputs u = (Returned inputs, u, []) \<and>
   timestamp_check env isManifest messages' inputs u = (Returned inputs, u, [])"
  by (simp add: conflict_check_def timestamp_check_def)

text \<open>
  Claim C8. With conflict detection enabled and an input that continues, when no
  username is set (it is undefined or empty), both checkers cancel with the message
  \<^verbatim>\<open>conflict_detect_no_default_username\<close> of the message table. The manifest
  checker has called no collaborator by then; the timestamp checker has only shown the
  output channel and written its starting line: no comparison and no dialog.
\<close>

theorem missing_username_cancels:
  "conflictDetectionEnabled env \<Longrightarrow> \<not> truthy (username env) \<Longrightarrow>
   conflict_check env messages (Continue p) u =
     (Returned (Cancel (Some (localize env ''conflict_detect_no_default_username'' []))), u, []) \<and>
   timestamp_check env isManifest messages' (Continue p) u =
     (Returned (Cancel (Some (localize env ''conflict_detect_no_default_username'' []))), u,
      [ShowChannelOutput,
       ShowCommandWithTimestamp
         (localize env ''channel_starting_message'' [] @
          localize env ''conflict_detect_execution_name'' [] @ newline)])"
  by (simp add: conflict_check_def timestamp_check_def truthy_def split: option.splits)

text \<open>
  When the value thrown has a \<^verbatim>\<open>toString()\<close>, as every \<^verbatim>\<open>Error\<close> has: with conflict
  detection enabled, a username set and an input that continues, a throw of the snapshot
  loader or of the diff builder ends in a cancellation without a message, and the deploy
  lock has been released exactly once.
\<close>

lemma timestamp_failed_text:
  "timestamp_failed env (Error text) u before =
     (Returned (Cancel None), u,
      before @
      [ConsoleError (Error text),
       AppendLine (localize env ''conflict_detect_error'' [Str text]),
       SendException ''ConflictDetectionException''
         (localize env ''conflict_detect_error'' [Str text]),
       Unlock])"
  by (simp add: timestamp_failed_def timestamp_catch_def Let_def)

lemma timestamp_failure_with_text:
  assumes "conflictDetectionEnabled env"
    and "username env = Some name" and "name \<noteq> []"
    and "loadCache env name p (rootWorkspacePath env) isManifest = Inl (Error text) \<or>
         (\<exists>snapshot. loadCache env name p (rootWorkspacePath env) isManifest = Inr snapshot \<and>
            createDiffs env snapshot = Inl (Error text))"
  shows "fst (timestamp_check env isManifest messages (Continue p) u) = Returned (Cancel None) \<and>
         count_list (snd (snd (timestamp_check env isManifest messages (Continue p) u))) Unlock = 1"
  using assms
  by (auto simp add: timestamp_check_def Let_def timestamp_failed_text)

text \<open>
  Claim C4 on the code. Conflict detection is enabled, the username is set, the input
  continues, and the snapshot loader rejects with \<^verbatim>\<open>undefined\<close>. The \<^verbatim>\<open>catch\<close> block
  logs to the console and then throws at \<^verbatim>\<open>error.toString()\<close>: \<^verbatim>\<open>check\<close> ends with
  that \<^verbatim>\<open>TypeError\<close> instead of a cancellation, and the deploy lock is not released.
\<close>

theorem timestamp_nullish_failure_keeps_lock:
  "loadCache (sample_env True (Some ''me'') [] nullish_load failing_diffs) ''me'' ''force-app''
     ''/ws'' False = Inl Nullish \<and>
   timestamp_check (sample_env True (Some ''me'') [] nullish_load failing_diffs) False
     sample_messages (Continue ''force-app'') [] =
     (Threw (Error ''TypeError: Cannot read property 'toString' of undefined''), [],
      [ShowChannelOutput,
       ShowCommandWithTimestamp
         (''channel_starting_message'' @ ''conflict_detect_execution_name'' @ newline),
       LoadCache ''me'' ''force-app'' ''/ws'' False,
       ConsoleError Nullish]) \<and>
   count_list (snd (snd (timestamp_check (sample_env True (Some ''me'') [] nullish_load failing_diffs)
     False sample_messages (Continue ''force-app'') []))) Unlock = 0"
  by (simp add: timestamp_check_def timestamp_failed_def timestamp_catch_def sample_env_def
      nullish_load_def sample_nls_def Let_def)

text \<open>
  Disabled, with a cancellation that carries a message as the input: both checkers hand
  it back, message and all, and the user is not asked.
\<close>

theorem disabled_passes_through_witness:
  "\<not> conflictDetectionEnabled (sample_env False (Some ''me'') [] failing_load failing_diffs) \<and>
   conflict_check (sample_env False (Some ''me'') [] failing_load failing_diffs) sample_messages
     (Cancel (Some ''stop'')) [Some ''Skip''] = (Returned (Cancel (Some ''stop'')), [Some ''Skip''], []) \<and>
   timestamp_check (sample_env False (Some ''me'') [] failing_load failing_diffs) True sample_messages
     (Cancel (Some ''stop'')) [Some ''Skip''] = (Returned (Cancel (Some ''stop'')), [Some ''Skip''], [])"
proof -
  have h: "\<not> conflictDetectionEnabled (sample_env False (Some ''me'') [] failing_load failing_diffs)"
    by (simp add: sample_env_def)
  from disabled_passes_through [OF h, of sample_messages "Cancel (Some ''stop'')" "[Some ''Skip'']" True sample_messages]
  show ?thesis using h by simp
qed

text \<open>
  Enabled, no username: both checkers cancel with the message of the table.
\<close>

theorem missing_username_cancels_witness:
  "conflictDetectionEnabled (sample_env True None [] good_load failing_diffs) \<and>
   \<not> truthy (username (sample_env True None [] good_load failing_diffs)) \<and>
   conflict_check (sample_env True None [] good_load failing_diffs) sample_messages
     (Continue ''package.xml'') [] =
     (Returned (Cancel (Some ''conflict_detect_no_default_username'')), [], []) \<and>
   timestamp_check (sample_env True None [] good_load failing_diffs) True sample_messages
     (Continue ''package.xml'') [] =
     (Returned (Cancel (Some ''conflict_detect_no_default_username'')), [],
      [ShowChannelOutput,
       ShowCommandWithTimestamp (''channel_starting_message'' @ ''conflict_detect_execution_name'' @ newline)])"
proof -
  have h1: "conflictDetectionEnabled (sample_env True None [] good_load failing_diffs)"
    by (simp add: sample_env_def)
  have h2: "\<not> truthy (username (sample_env True None [] good_load failing_diffs))"
    by (simp add: sample_env_def truthy_def)
  have l: "localize (sample_env True None [] good_load failing_diffs) = sample_nls"
    by (simp add: sample_env_def)
  have n: "sample_nls ''conflict_detect_no_default_username'' [] = ''conflict_detect_no_default_username''"
    "sample_nls ''channel_starting_message'' [] = ''channel_starting_message''"
    "sample_nls ''conflict_detect_execution_name'' [] = ''conflict_detect_execution_name''"
    by (simp_all add: sample_nls_def)
  from missing_username_cancels [OF h1 h2, of sample_messages "''package.xml''" "[]" True sample_messages]
  show ?thesis using h1 h2 by (simp add: l n)
qed

subsection \<open>The overwrite dialog\<close>

text \<open>
  Claim C5, as the code has it. For a batch of exactly one found item with an empty
  skip set the only choice offered is Overwrite: no Skip, no Overwrite remaining and no
  Skip remaining (dismissing the dialog is the other outcome).
\<close>

theorem single_item_options:
  "buildDialogOptions nls [c] [] 0 = [nls ''warning_prompt_overwrite'' []]"
  by (simp add: buildDialogOptions_def)

text \<open>
  Claim C5 as it was stated fails: for one found item and an empty skip set the
  choices are not Overwrite and Skip, since Skip is not among them.
\<close>

theorem single_item_options_counterexample:
  "buildDialogOptions sample_nls [1] [] 0 = [''Overwrite''] \<and>
   sample_nls ''warning_prompt_skip'' [] = ''Skip'' \<and>
   ''Skip'' \<notin> set (buildDialogOptions sample_nls [1] [] 0)"
  by (simp add: buildDialogOptions_def sample_nls_def)

declare body_loop.simps [simp del]

lemma body_loop_truncates:
  "j \<le> i + 11 \<Longrightarrow> i + 11 < length found \<Longrightarrow>
   body_loop nls h found i j body =
     body @
     concat (map (\<lambda>k. lc_type (h (found ! k)) @ '':'' @ lc_fileName (h (found ! k)) @ newline)
               [j..<i + 11]) @
     nls ''warning_prompt_other_not_shown'' [Num (int (length found) - int i - 11)]"
proof (induction nls h found i j body rule: body_loop.induct)
  case (1 nls h found i j body)
  show ?case
  proof (cases "j = i + 11")
    case True
    with "1.prems" show ?thesis by (subst body_loop.simps) simp
  next
    case False
    with "1.prems" have lt: "j < i + 11" "j < length found" by simp_all
    have step: "body_loop nls h found i j body =
        body_loop nls h found i (Suc j)
          (body @ lc_type (h (found ! j)) @ '':'' @ lc_fileName (h (found ! j)) @ newline)"
      using lt False by (subst body_loop.simps) simp
    have upt: "[j..<i + 11] = j # [Suc j..<i + 11]"
      using lt by (simp add: upt_conv_Cons)
    from "1.IH" [OF lt(2) False] lt "1.prems"
    have "body_loop nls h found i (Suc j)
          (body @ lc_type (h (found ! j)) @ '':'' @ lc_fileName (h (found ! j)) @ newline) =
        (body @ lc_type (h (found ! j)) @ '':'' @ lc_fileName (h (found ! j)) @ newline) @
        concat (map (\<lambda>k. lc_type (h (found ! k)) @ '':'' @ lc_fileName (h (found ! k)) @ newline)
               [Suc j..<i + 11]) @
        nls ''warning_prompt_other_not_shown'' [Num (int (length found) - int i - 11)]"
      by simp
    with step upt show ?thesis by simp
  qed
qed

text \<open>
  Claim C6. When more than ten items follow index \<open>i\<close> (\<open>N - i - 1 > 10\<close>), the
  body of the message at \<open>i\<close> is one line for each of the ten items at the indices
  \<open>i + 1\<close> to \<open>i + 10\<close>, then the text of \<^verbatim>\<open>warning_prompt_other_not_shown\<close> for
  the count \<open>N - i - 11\<close>, and nothing more.
\<close>

theorem message_lists_ten_then_count:
  assumes "10 < int (length found) - int i - 1"
  shows "buildDialogMessage nls h found i =
    Inr (nls ''warning_prompt_overwrite_message''
      [Str (lc_type (h (found ! i))), Str (lc_fileName (h (found ! i))),
       Str (nls ''warning_prompt_other_existing'' [Num (int (length found) - int i - 1)]),
       Str (concat (map (\<lambda>k. lc_type (h (found ! k)) @ '':'' @ lc_fileName (h (found ! k)) @ newline)
                      [i + 1..<i + 11]) @
            nls ''warning_prompt_other_not_shown'' [Num (int (length found) - int i - 11)])])"
proof -
  from assms have len: "i + 11 < length found" by simp
  have "body_loop nls h found i (i + 1) [] =
     concat (map (\<lambda>k. lc_type (h (found ! k)) @ '':'' @ lc_fileName (h (found ! k)) @ newline)
               [i + 1..<i + 11]) @
     nls ''warning_prompt_other_not_shown'' [Num (int (length found) - int i - 11)]"
    using body_loop_truncates [of "i + 1" i found nls h "[]"] len by simp
  with len assms show ?thesis
    by (simp add: buildDialogMessage_def Let_def)
qed

text \<open>
  Thirteen classes, at index 0: ten lines and two classes not shown.
\<close>

theorem message_lists_ten_then_count_witness:
  "10 < int (length [0..<13]) - int 0 - 1 \<and>
   buildDialogMessage sample_nls sample_store [0..<13] 0 =
     Inr (''warning_prompt_overwrite_message ApexClass c0 warning_prompt_other_existing 12 '' @
          ''ApexClass:c1'' @ newline @ ''ApexClass:c2'' @ newline @ ''ApexClass:c3'' @ newline @
          ''ApexClass:c4'' @ newline @ ''ApexClass:c5'' @ newline @ ''ApexClass:c6'' @ newline @
          ''ApexClass:c7'' @ newline @ ''ApexClass:c8'' @ newline @ ''ApexClass:c9'' @ newline @
          ''ApexClass:c10'' @ newline @ ''+2 more'')"
proof -
  have h: "10 < int (length [0..<13]) - int 0 - 1" by simp
  have r: "(Inr (sample_nls ''warning_prompt_overwrite_message''
      [Str (lc_type (sample_store ([0..<13] ! 0))), Str (lc_fileName (sample_store ([0..<13] ! 0))),
       Str (sample_nls ''warning_prompt_other_existing'' [Num (int (length [0..<13]) - int 0 - 1)]),
       Str (concat (map (\<lambda>k. lc_type (sample_store ([0..<13] ! k)) @ '':'' @
                             lc_fileName (sample_store ([0..<13] ! k)) @ newline)
                      [0 + 1..<0 + 11]) @
            sample_nls ''warning_prompt_other_not_shown'' [Num (int (length [0..<13]) - int 0 - 11)])])
        :: exn + string) =
     Inr (''warning_prompt_overwrite_message ApexClass c0 warning_prompt_other_existing 12 '' @
          ''ApexClass:c1'' @ newline @ ''ApexClass:c2'' @ newline @ ''ApexClass:c3'' @ newline @
          ''ApexClass:c4'' @ newline @ ''ApexClass:c5'' @ newline @ ''ApexClass:c6'' @ newline @
          ''ApexClass:c7'' @ newline @ ''ApexClass:c8'' @ newline @ ''ApexClass:c9'' @ newline @
          ''ApexClass:c10'' @ newline @ ''+2 more'')"
    by code_simp
  from message_lists_ten_then_count [OF h, of sample_nls sample_store]
  have "buildDialogMessage sample_nls sample_store [0..<13] 0 =
     Inr (''warning_prompt_overwrite_message ApexClass c0 warning_prompt_other_existing 12 '' @
          ''ApexClass:c1'' @ newline @ ''ApexClass:c2'' @ newline @ ''ApexClass:c3'' @ newline @
          ''ApexClass:c4'' @ newline @ ''ApexClass:c5'' @ newline @ ''ApexClass:c6'' @ newline @
          ''ApexClass:c7'' @ newline @ ''ApexClass:c8'' @ newline @ ''ApexClass:c9'' @ newline @
          ''ApexClass:c10'' @ newline @ ''+2 more'')"
    by (simp only: r)
  with h show ?thesis by (rule conjI)
qed

subsection \<open>The batch decision and the overwrite checker\<close>

declare promptOverwrite_loop.simps [simp del]

text \<open>
  Inside the list the message is built: the loop of the prompt never meets the
  \<^verbatim>\<open>TypeError\<close>, and \<^verbatim>\<open>promptOverwrite\<close> always returns.
\<close>

lemma buildDialogMessage_in_range:
  "i < length found \<Longrightarrow> \<exists>message. buildDialogMessage nls h found i = Inr message"
  by (simp add: buildDialogMessage_def Let_def)

lemma promptOverwrite_loop_returns:
  "\<exists>r u' evs. promptOverwrite_loop nls modal h found i skipped u = (Returned r, u', evs)"
proof (induction "length found - i" arbitrary: i skipped u)
  case 0
  then show ?case by (subst promptOverwrite_loop.simps) simp
next
  case (Suc n)
  then have lt: "i < length found" and n: "n = length found - Suc i" by simp_all
  from lt obtain message where m: "buildDialogMessage nls h found i = Inr message"
    using buildDialogMessage_in_range by blast
  obtain choice u1 where c: "modal u message (buildDialogOptions nls found skipped i) = (choice, u1)"
    by (cases "modal u message (buildDialogOptions nls found skipped i)")
  from Suc.hyps(1) [OF n, of skipped u1]
  obtain r1 v1 e1 where
    r1: "promptOverwrite_loop nls modal h found (Suc i) skipped u1 = (Returned r1, v1, e1)"
    by blast
  from Suc.hyps(1) [OF n, of "set_add (found ! i) skipped" u1]
  obtain r2 v2 e2 where
    r2: "promptOverwrite_loop nls modal h found (Suc i) (set_add (found ! i) skipped) u1 =
           (Returned r2, v2, e2)"
    by blast
  show ?case
    using lt m c r1 r2
    by (subst promptOverwrite_loop.simps) (simp add: Let_def)
qed

text \<open>
  What the loop does at index \<open>i\<close> when the answer is the label of the fourth case of
  the \<^verbatim>\<open>switch\<close> and of no earlier case: it shows that one dialog, visits no further
  index and returns the set of the items from \<open>i\<close> on; the skip set collected so far is
  not part of the result.
\<close>

lemma promptOverwrite_loop_skip_all:
  assumes "i < length found"
    and "buildDialogMessage nls h found i = Inr message"
    and "modal u message (buildDialogOptions nls found skipped i) = (Some choice, u')"
    and "choice \<noteq> nls ''warning_prompt_overwrite'' []"
    and "choice \<noteq> nls ''warning_prompt_skip'' []"
    and "choice \<noteq> nls ''warning_prompt_overwrite_all'' [] @ '' ('' @
           show_int (int (length found) - int i) @ '')''"
    and "choice = nls ''warning_prompt_skip_all'' [] @ '' ('' @
           show_int (int (length found) - int i) @ '')''"
  shows "promptOverwrite_loop nls modal h found i skipped u =
     (Returned (Some (new_Set (drop i found))), u',
      [ShowWarningModal message (buildDialogOptions nls found skipped i)])"
  using assms by (subst promptOverwrite_loop.simps) (simp add: Let_def)

lemma promptOverwrite_returns:
  "\<exists>toSkip u' evs. promptOverwrite nls modal h found u = (Returned toSkip, u', evs)"
  unfolding promptOverwrite_def by (rule promptOverwrite_loop_returns)

text \<open>
  Claim C2, as the code has it. For an input that continues and has a candidate that
  exists: when the batch prompt returns no decision, or returns a skip set whose size is
  the number of all the candidates of the input (those that exist and those that do
  not), the checker returns a cancellation.
\<close>

theorem overwrite_cancels:
  assumes "filter_existing env h (componentsToCheck d) = (found, evs)"
    and "found \<noteq> []"
    and "promptOverwrite (localize env) (showWarningModal env) h found u = (Returned toSkip, u', evs')"
    and "toSkip = None \<or>
         (\<exists>skip. toSkip = Some skip \<and> length skip = length (componentsToCheck d))"
  shows "overwrite_check env h (Continue d) u = (Returned (Cancel None), u', evs @ evs')"
  using assms by (auto simp add: overwrite_check_def Let_def)

text \<open>
  Claim C2 as it was stated fails. Of three candidates the first two exist; at the
  first dialog the user chooses to skip the remaining two. The skip set holds every
  candidate that was presented, and the checker continues with the third candidate.
\<close>

theorem overwrite_cancels_counterexample:
  "filter_existing (sample_env True None [1, 2] good_load failing_diffs) sample_store [1, 2, 3]
     = ([1, 2], []) \<and>
   fst (promptOverwrite sample_nls scripted sample_store [1, 2] [Some ''Skip remaining (2)''])
     = Returned (Some [1, 2]) \<and>
   fst (overwrite_check (sample_env True None [1, 2] good_load failing_diffs) sample_store
          (Continue (Many [1, 2, 3])) [Some ''Skip remaining (2)''])
     = Returned (Continue (Many [3]))"
  by code_simp

text \<open>
  Claim C3 on the code. Three found items; the user skips the first and at the second
  chooses to skip the remaining two. The procedure ends after two dialogs and returns
  the second and the third item only: the first, skipped before, is not in the set, and
  the checker goes on with the first item as the one to overwrite.
\<close>

theorem skip_remaining_forgets_earlier_skips:
  "fst (promptOverwrite sample_nls scripted sample_store [1, 2, 3]
          [Some ''Skip'', Some ''Skip remaining (2)'']) = Returned (Some [2, 3]) \<and>
   length (snd (snd (promptOverwrite sample_nls scripted sample_store [1, 2, 3]
          [Some ''Skip'', Some ''Skip remaining (2)'']))) = 2 \<and>
   fst (overwrite_check (sample_env True None [1, 2, 3] good_load failing_diffs) sample_store
          (Continue (Many [1, 2, 3])) [Some ''Skip'', Some ''Skip remaining (2)''])
     = Returned (Continue (Many [1]))"
  by code_simp

text \<open>
  Two candidates, both exist. Skipping both at the first dialog cancels, and so does
  dismissing the dialog.
\<close>

theorem overwrite_cancels_witness:
  "overwrite_check (sample_env True None [1, 2] good_load failing_diffs) sample_store
     (Continue (Many [1, 2])) [Some ''Skip remaining (2)'']
   = (Returned (Cancel None), [],
      [] @ [ShowWarningModal
         (''warning_prompt_overwrite_message ApexClass c1 warning_prompt_other_existing 1 '' @
          ''ApexClass:c2'' @ newline)
         [''Overwrite'', ''Skip'', ''Overwrite remaining (2)'', ''Skip remaining (2)'']]) \<and>
   overwrite_check (sample_env True None [1, 2] good_load failing_diffs) sample_store
     (Continue (Many [1, 2])) []
   = (Returned (Cancel None), [],
      [] @ [ShowWarningModal
         (''warning_prompt_overwrite_message ApexClass c1 warning_prompt_other_existing 1 '' @
          ''ApexClass:c2'' @ newline)
         [''Overwrite'', ''Skip'', ''Overwrite remaining (2)'', ''Skip remaining (2)'']])"
proof -
  let ?E = "sample_env True None [1, 2] good_load failing_diffs"
  let ?shown = "[ShowWarningModal
         (''warning_prompt_overwrite_message ApexClass c1 warning_prompt_other_existing 1 '' @
          ''ApexClass:c2'' @ newline)
         [''Overwrite'', ''Skip'', ''Overwrite remaining (2)'', ''Skip remaining (2)'']]"
  have f: "filter_existing ?E sample_store (componentsToCheck (Many [1, 2])) = ([1, 2], [])"
    by code_simp
  have n: "[1, 2::nat] \<noteq> []" by simp
  have p1: "promptOverwrite (localize ?E) (showWarningModal ?E) sample_store [1, 2]
              [Some ''Skip remaining (2)''] = (Returned (Some [1, 2]), [], ?shown)"
    by code_simp
  have p2: "promptOverwrite (localize ?E) (showWarningModal ?E) sample_store [1, 2]
              [] = (Returned None, [], ?shown)"
    by code_simp
  have c1: "Some [1, 2::nat] = None \<or>
         (\<exists>skip. Some [1, 2::nat] = Some skip \<and> length skip = length (componentsToCheck (Many [1, 2])))"
    by (simp add: componentsToCheck_def)
  have c2: "(None :: ref list option) = None \<or>
         (\<exists>skip. None = Some skip \<and> length skip = length (componentsToCheck (Many [1, 2])))"
    by simp
  from overwrite_cancels [OF f n p1 c1] overwrite_cancels [OF f n p2 c2]
  show ?thesis by (rule conjI)
qed

end
